theory Spec2Isabelle
  imports Main "HOL-Library.Word" "HOL-Library.Sublist"
begin

section \<open>Certificate chain resolution by issuer URL\<close>

text \<open>The embedding of \<^verbatim>\<open>helpers/tls/ca_chain/resolver_url.go\<close>.\<close>

subsection \<open>Data model\<close>

type_synonym byte = "8 word"
type_synonym bytes = "byte list"

text \<open>A Go \<open>error\<close> is modelled by the text its \<open>Error()\<close> method returns. The source
  builds its own errors with \<open>fmt.Errorf("...: %v", err)\<close>, which formats the cause with
  \<open>%v\<close>: the new error is the prefix followed by the text of the cause.\<close>

type_synonym error = string

text \<open>The fields of \<open>x509.Certificate\<close> that the resolver and the root check read.
  \<open>IssuingCertificateURL\<close> is a Go slice: \<open>None\<close> is the nil slice, \<open>Some us\<close> a non-nil
  slice with the elements \<open>us\<close> (\<open>Some []\<close> is the non-nil slice of length 0).\<close>

record certificate =
  Subject :: string
  Issuer :: string
  PublicKey :: bytes
  Signature :: bytes
  RawTBSCertificate :: bytes
  IssuingCertificateURL :: "string list option"

text \<open>What \<open>http.Client.Get\<close> hands back when it reports no error: the status code and
  the outcome of reading the body to its end (\<open>ioutil.ReadAll(resp.Body)\<close>).\<close>

record http_response =
  StatusCode :: int
  Body :: "error + bytes"

text \<open>The network is a state \<open>'w\<close> that every request may change. \<open>Get\<close> answers either
  with an error (\<open>Inl\<close>) or with a response (\<open>Inr\<close>).\<close>

record 'w http_Client =
  Get :: "string \<Rightarrow> 'w \<Rightarrow> (error + http_response) \<times> 'w"

record 'w httpFetcher =
  client :: "'w http_Client"

text \<open>\<open>urlResolver\<close>: the injected fetcher (interface \<open>fetcher\<close>), the injected decoder and
  the loop limit. The \<open>logger\<close> field is the sink of the log calls, which the model collects
  in the trace of events below.\<close>

record 'w urlResolver =
  fetcher :: "string \<Rightarrow> 'w \<Rightarrow> (error + bytes) \<times> 'w"
  decoder :: "bytes \<Rightarrow> error + certificate"
  loopLimit :: int

datatype level = Debug | Warning

text \<open>The fields of a log entry. \<open>CertificateFields p c\<close> stands for the fields that
  \<open>preparePrefixedCertificateLogger\<close> derives from certificate \<open>c\<close> under prefix \<open>p\<close>
  (\<open>prepareCertificateLogger\<close> is the empty prefix).\<close>

datatype log_field =
    CertificateFields string certificate
  | Field string string
  | ErrorField error

text \<open>The calls that leave the resolver, in the order they are made: a fetch with its
  result, a decode with its result, a log entry.\<close>

datatype event =
    FetchCall string "error + bytes"
  | DecodeCall bytes "error + certificate"
  | LogCall level "log_field list" string

text \<open>A Go call either panics or returns.\<close>

datatype 'a outcome = Panics string | Returns 'a

subsection \<open>The fetcher\<close>

text \<open>\<open>httpFetcher.Fetch\<close>: the error of the request, else the error of reading the body,
  else the bytes read. The deferred \<open>Body.Close()\<close> changes no result.\<close>

definition Fetch :: "'w httpFetcher \<Rightarrow> string \<Rightarrow> 'w \<Rightarrow> (error + bytes) \<times> 'w" where
  "Fetch f url w =
     (case Get (client f) url w of
        (Inl err, w') \<Rightarrow> (Inl err, w')
      | (Inr resp, w') \<Rightarrow>
          (case Body resp of
             Inl err \<Rightarrow> (Inl err, w')
           | Inr data \<Rightarrow> (Inr data, w')))"

subsection \<open>The root check\<close>

text \<open>\<open>Resolve\<close> calls \<open>isSelfSigned\<close>, a function of the package whose body is not among
  the sources. The resolver below takes it as a parameter, so that what is proved of the
  resolver holds for every root check.\<close>

type_synonym verifier = "bytes \<Rightarrow> bytes \<Rightarrow> bytes \<Rightarrow> bool"

text \<open>Modelled from the spec: the body of \<open>isSelfSigned\<close> is missing, and the
  specification's root detector \<open>IsRoot\<close> stands for it: the issuer identity equals the
  subject identity and the signature verifies against the certificate's own public key.
  The signature check of the cryptographic library is the parameter \<open>verify\<close>, applied to
  the key, the signed bytes and the signature.\<close>

definition IsRoot :: "verifier \<Rightarrow> certificate \<Rightarrow> bool" where
  "IsRoot verify cert =
     (Issuer cert = Subject cert \<and>
      verify (PublicKey cert) (RawTBSCertificate cert) (Signature cert))"

subsection \<open>The resolver\<close>

text \<open>The log entries of the resolver. \<open>fetchIssuerCertificate\<close> logs through
  \<open>prepareCertificateLogger(r.logger, cert).WithField("method", "fetchIssuerCertificate")\<close>.\<close>

definition fetchLogFields :: "certificate \<Rightarrow> log_field list" where
  "fetchLogFields cert = [CertificateFields [] cert, Field ''method'' ''fetchIssuerCertificate'']"

definition fetchWarning :: "certificate \<Rightarrow> string \<Rightarrow> error \<Rightarrow> event" where
  "fetchWarning cert issuerURL err =
     LogCall Warning (fetchLogFields cert @ [ErrorField err, Field ''issuerURL'' issuerURL])
       ''Remote certificate fetching error''"

definition decodeWarning :: "certificate \<Rightarrow> error \<Rightarrow> event" where
  "decodeWarning cert err =
     LogCall Warning (fetchLogFields cert @ [ErrorField err]) ''Certificate decoding error''"

definition appendDebug :: "certificate \<Rightarrow> certificate \<Rightarrow> event" where
  "appendDebug cert newCert =
     LogCall Debug (fetchLogFields cert @ [CertificateFields ''newCert'' newCert])
       ''Appending the certificate to the chain''"

definition limitWarning :: event where
  "limitWarning = LogCall Warning [] ''urlResolver loop limit exceeded; exiting the loop''"

definition noURLDebug :: "certificate \<Rightarrow> event" where
  "noURLDebug cert = LogCall Debug [CertificateFields [] cert]
     ''Certificate doesn't provide parent URL: exiting the loop''"

definition rootDebug :: "certificate \<Rightarrow> event" where
  "rootDebug cert = LogCall Debug [CertificateFields [] cert]
     ''Fetched issuer certificate is a ROOT certificate so exiting the loop''"

text \<open>\<open>urlResolver.fetchIssuerCertificate\<close>. Indexing the URL slice at 0 panics when the
  slice has no element, nil or not.\<close>

definition fetchIssuerCertificate ::
  "'w urlResolver \<Rightarrow> certificate \<Rightarrow> 'w \<Rightarrow> (error + certificate) outcome \<times> event list \<times> 'w" where
  "fetchIssuerCertificate r cert w =
     (case IssuingCertificateURL cert of
        None \<Rightarrow> (Panics ''index out of range [0] with length 0'', [], w)
      | Some [] \<Rightarrow> (Panics ''index out of range [0] with length 0'', [], w)
      | Some (issuerURL # _) \<Rightarrow>
          (case fetcher r issuerURL w of
             (Inl err, w') \<Rightarrow>
               (Returns (Inl (''remote fetch failure: '' @ err)),
                [FetchCall issuerURL (Inl err), fetchWarning cert issuerURL err],
                w')
           | (Inr data, w') \<Rightarrow>
               (case decoder r data of
                  Inl err \<Rightarrow>
                    (Returns (Inl (''decoding failure: '' @ err)),
                     [FetchCall issuerURL (Inr data), DecodeCall data (Inl err),
                      decodeWarning cert err],
                     w')
                | Inr newCert \<Rightarrow>
                    (Returns (Inr newCert),
                     [FetchCall issuerURL (Inr data), DecodeCall data (Inr newCert),
                      appendDebug cert newCert],
                     w'))))"

text \<open>The loop of \<open>urlResolver.Resolve\<close>, entered with the value of \<open>loop\<close> before the
  increment. The counter never passes \<open>max 1 loopLimit\<close>, so the machine integer does not
  wrap. A returned pair is Go's \<open>(certs, err)\<close>; the nil slice is \<open>[]\<close>.\<close>

function Resolve_loop ::
  "(certificate \<Rightarrow> bool) \<Rightarrow> 'w urlResolver \<Rightarrow> int \<Rightarrow> certificate list \<Rightarrow> 'w \<Rightarrow>
     (certificate list \<times> error option) outcome \<times> event list \<times> 'w" where
  "Resolve_loop isSelfSigned r loop certs w =
     (if loop + 1 \<ge> loopLimit r then
        (Returns (certs, None), [limitWarning], w)
      else if certs = [] then
        (Panics ''index out of range [-1]'', [], w)
      else
        (case IssuingCertificateURL (last certs) of
           None \<Rightarrow> (Returns (certs, None), [noURLDebug (last certs)], w)
         | Some _ \<Rightarrow>
             (case fetchIssuerCertificate r (last certs) w of
                (Panics msg, evs, w') \<Rightarrow> (Panics msg, evs, w')
              | (Returns (Inl err), evs, w') \<Rightarrow>
                  (Returns ([], Some (''error while fetching issuer certificate: '' @ err)),
                   evs, w')
              | (Returns (Inr newCert), evs, w') \<Rightarrow>
                  (if isSelfSigned newCert then
                     (Returns (certs @ [newCert], None), evs @ [rootDebug (last certs)], w')
                   else
                     (case Resolve_loop isSelfSigned r (loop + 1) (certs @ [newCert]) w' of
                        (res, evs', w'') \<Rightarrow> (res, evs @ evs', w''))))))"
  by pat_completeness auto
termination
  by (relation "measure (\<lambda>(isSelfSigned, r, loop, certs, w). nat (loopLimit r - loop))") auto

definition Resolve ::
  "(certificate \<Rightarrow> bool) \<Rightarrow> 'w urlResolver \<Rightarrow> certificate list \<Rightarrow> 'w \<Rightarrow>
     (certificate list \<times> error option) outcome \<times> event list \<times> 'w" where
  "Resolve isSelfSigned r certs w =
     (if length certs < 1 then (Returns ([], None), [], w)
      else Resolve_loop isSelfSigned r 0 certs w)"

text \<open>\<open>newHTTPFetcher\<close> and \<open>newURLResolver\<close>. The behaviour of the HTTP client that Go
  builds and the decoder \<open>decodeCertificate\<close> of the package, whose body is not among
  the sources, are parameters. The fetch timeout bounds real time only: the request it
  cuts short is a request answered with an error.\<close>

definition newHTTPFetcher :: "'w http_Client \<Rightarrow> 'w httpFetcher" where
  "newHTTPFetcher c = \<lparr>client = c\<rparr>"

definition defaultURLResolverLoopLimit :: int where
  "defaultURLResolverLoopLimit = 15"

definition newURLResolver ::
  "'w http_Client \<Rightarrow> (bytes \<Rightarrow> error + certificate) \<Rightarrow> 'w urlResolver" where
  "newURLResolver c decodeCertificate =
     \<lparr>fetcher = Fetch (newHTTPFetcher c), decoder = decodeCertificate,
      loopLimit = defaultURLResolverLoopLimit\<rparr>"

subsection \<open>Reading the trace\<close>

text \<open>The URLs fetched, in order, and the certificates decoded, in order.\<close>

fun fetched :: "event list \<Rightarrow> string list" where
  "fetched [] = []"
| "fetched (FetchCall u x # es) = u # fetched es"
| "fetched (DecodeCall d x # es) = fetched es"
| "fetched (LogCall l fs m # es) = fetched es"

fun decoded :: "event list \<Rightarrow> certificate list" where
  "decoded [] = []"
| "decoded (DecodeCall d (Inr c) # es) = c # decoded es"
| "decoded (DecodeCall d (Inl e) # es) = decoded es"
| "decoded (FetchCall u x # es) = decoded es"
| "decoded (LogCall l fs m # es) = decoded es"

text \<open>Replaying the fetches of a trace on the fetcher of a resolver, from a given state of
  the network: each recorded URL is requested in turn, and the answer must be the recorded
  one. The result is the state of the network after these requests and no others.\<close>

fun replay :: "'w urlResolver \<Rightarrow> event list \<Rightarrow> 'w \<Rightarrow> 'w option" where
  "replay r [] w = Some w"
| "replay r (FetchCall u x # es) w =
     (case fetcher r u w of (y, w1) \<Rightarrow> if y = x then replay r es w1 else None)"
| "replay r (DecodeCall d x # es) w = replay r es w"
| "replay r (LogCall l fs m # es) w = replay r es w"

subsection \<open>Example inputs\<close>

text \<open>A toy signature scheme, three certificates (\<open>certX\<close> issued by \<open>certY\<close>, the
  self-signed \<open>certY\<close>, and \<open>certZ\<close> whose issuer chain never ends), a decoder and three
  networks over a request counter: one that serves certificates, one that refuses every
  connection, and one that answers every request with status 500 and a given body.\<close>

definition exampleVerify :: verifier where
  "exampleVerify key tbs sig = (sig = key @ tbs)"

definition certX :: certificate where
  "certX = \<lparr>Subject = ''CN=X'', Issuer = ''CN=Y'', PublicKey = [1], Signature = [2, 3],
     RawTBSCertificate = [3],
     IssuingCertificateURL =
       Some [''http://ca.example/Y.crt'', ''http://mirror.example/Y.crt'']\<rparr>"

definition certY :: certificate where
  "certY = \<lparr>Subject = ''CN=Y'', Issuer = ''CN=Y'', PublicKey = [7], Signature = [7, 9],
     RawTBSCertificate = [9], IssuingCertificateURL = None\<rparr>"

definition certZ :: certificate where
  "certZ = \<lparr>Subject = ''CN=Z'', Issuer = ''CN=Z2'', PublicKey = [4], Signature = [5, 6],
     RawTBSCertificate = [6], IssuingCertificateURL = Some [''http://ca.example/Z2.crt'']\<rparr>"

definition exampleDecode :: "bytes \<Rightarrow> error + certificate" where
  "exampleDecode data =
     (if data = [48, 89] then Inr certY
      else if data = [48, 90] then Inr certZ
      else Inl ''asn1: syntax error'')"

definition servingClient :: "nat http_Client" where
  "servingClient = \<lparr>Get = (\<lambda>url w.
     (if url = ''http://ca.example/Y.crt''
      then Inr \<lparr>StatusCode = 200, Body = Inr [48, 89]\<rparr>
      else Inr \<lparr>StatusCode = 200, Body = Inr [48, 90]\<rparr>, Suc w))\<rparr>"

definition refusingClient :: "nat http_Client" where
  "refusingClient = \<lparr>Get = (\<lambda>url w. (Inl ''connection refused'', Suc w))\<rparr>"

text \<open>A resolver with an injected fetcher that times out on every URL.\<close>

definition timeoutResolver :: "nat urlResolver" where
  "timeoutResolver =
     \<lparr>fetcher = (\<lambda>url w. (Inl ''i/o timeout'', Suc w)), decoder = exampleDecode,
      loopLimit = defaultURLResolverLoopLimit\<rparr>"

text \<open>A resolver whose network is the list of the URLs requested so far. Its fetcher
  refuses every URL but the mirror, where it serves the bytes of \<open>certY\<close>.\<close>

definition recordingResolver :: "string list urlResolver" where
  "recordingResolver =
     \<lparr>fetcher = (\<lambda>url w.
        (if url = ''http://mirror.example/Y.crt'' then Inr [48, 89]
         else Inl ''connection refused'', w @ [url])),
      decoder = exampleDecode, loopLimit = defaultURLResolverLoopLimit\<rparr>"

definition failingClient :: "bytes \<Rightarrow> nat http_Client" where
  "failingClient body =
     \<lparr>Get = (\<lambda>url w. (Inr \<lparr>StatusCode = 500, Body = Inr body\<rparr>, Suc w))\<rparr>"

section \<open>Unfolding the resolver\<close>

declare Resolve_loop.simps [simp del]

lemma fetched_append: "fetched (xs @ ys) = fetched xs @ fetched ys"
  by (induction xs rule: fetched.induct) auto

lemma decoded_append: "decoded (xs @ ys) = decoded xs @ decoded ys"
  by (induction xs rule: decoded.induct) auto

lemma fetched_log [simp]:
  "fetched (limitWarning # es) = fetched es"
  "fetched (noURLDebug c # es) = fetched es"
  "fetched (rootDebug c # es) = fetched es"
  "fetched (fetchWarning c u e # es) = fetched es"
  "fetched (decodeWarning c e # es) = fetched es"
  "fetched (appendDebug c c' # es) = fetched es"
  by (simp_all add: limitWarning_def noURLDebug_def rootDebug_def fetchWarning_def
      decodeWarning_def appendDebug_def)

lemma decoded_log [simp]:
  "decoded (limitWarning # es) = decoded es"
  "decoded (noURLDebug c # es) = decoded es"
  "decoded (rootDebug c # es) = decoded es"
  "decoded (fetchWarning c u e # es) = decoded es"
  "decoded (decodeWarning c e # es) = decoded es"
  "decoded (appendDebug c c' # es) = decoded es"
  by (simp_all add: limitWarning_def noURLDebug_def rootDebug_def fetchWarning_def
      decodeWarning_def appendDebug_def)

lemma fic_no_url:
  "IssuingCertificateURL cert = None \<or> IssuingCertificateURL cert = Some [] \<Longrightarrow>
   fetchIssuerCertificate r cert w = (Panics ''index out of range [0] with length 0'', [], w)"
  by (auto simp: fetchIssuerCertificate_def)

lemma fic_fetch_fails:
  "IssuingCertificateURL cert = Some (u # us) \<Longrightarrow> fetcher r u w = (Inl err, w') \<Longrightarrow>
   fetchIssuerCertificate r cert w =
     (Returns (Inl (''remote fetch failure: '' @ err)),
      [FetchCall u (Inl err), fetchWarning cert u err], w')"
  by (simp add: fetchIssuerCertificate_def)

lemma fic_decode_fails:
  "IssuingCertificateURL cert = Some (u # us) \<Longrightarrow> fetcher r u w = (Inr data, w') \<Longrightarrow>
   decoder r data = Inl err \<Longrightarrow>
   fetchIssuerCertificate r cert w =
     (Returns (Inl (''decoding failure: '' @ err)),
      [FetchCall u (Inr data), DecodeCall data (Inl err), decodeWarning cert err], w')"
  by (simp add: fetchIssuerCertificate_def)

lemma fic_decodes:
  "IssuingCertificateURL cert = Some (u # us) \<Longrightarrow> fetcher r u w = (Inr data, w') \<Longrightarrow>
   decoder r data = Inr newCert \<Longrightarrow>
   fetchIssuerCertificate r cert w =
     (Returns (Inr newCert),
      [FetchCall u (Inr data), DecodeCall data (Inr newCert), appendDebug cert newCert], w')"
  by (simp add: fetchIssuerCertificate_def)

lemma loop_limit:
  "loopLimit r \<le> loop + 1 \<Longrightarrow>
   Resolve_loop isSelfSigned r loop certs w = (Returns (certs, None), [limitWarning], w)"
  by (subst Resolve_loop.simps) simp

lemma loop_empty:
  "\<not> loopLimit r \<le> loop + 1 \<Longrightarrow> certs = [] \<Longrightarrow>
   Resolve_loop isSelfSigned r loop certs w = (Panics ''index out of range [-1]'', [], w)"
  by (subst Resolve_loop.simps) simp

lemma loop_no_url:
  "\<not> loopLimit r \<le> loop + 1 \<Longrightarrow> certs \<noteq> [] \<Longrightarrow>
   IssuingCertificateURL (last certs) = None \<Longrightarrow>
   Resolve_loop isSelfSigned r loop certs w = (Returns (certs, None), [noURLDebug (last certs)], w)"
  by (subst Resolve_loop.simps) simp

lemma loop_panics:
  "\<not> loopLimit r \<le> loop + 1 \<Longrightarrow> certs \<noteq> [] \<Longrightarrow>
   IssuingCertificateURL (last certs) = Some [] \<Longrightarrow>
   Resolve_loop isSelfSigned r loop certs w = (Panics ''index out of range [0] with length 0'', [], w)"
  by (subst Resolve_loop.simps) (simp add: fic_no_url)

lemma loop_fetch_fails:
  "\<not> loopLimit r \<le> loop + 1 \<Longrightarrow> certs \<noteq> [] \<Longrightarrow>
   IssuingCertificateURL (last certs) = Some (u # us) \<Longrightarrow> fetcher r u w = (Inl err, w') \<Longrightarrow>
   Resolve_loop isSelfSigned r loop certs w =
     (Returns ([], Some (''error while fetching issuer certificate: '' @
                         ''remote fetch failure: '' @ err)),
      [FetchCall u (Inl err), fetchWarning (last certs) u err], w')"
  by (subst Resolve_loop.simps) (simp add: fic_fetch_fails)

lemma loop_decode_fails:
  "\<not> loopLimit r \<le> loop + 1 \<Longrightarrow> certs \<noteq> [] \<Longrightarrow>
   IssuingCertificateURL (last certs) = Some (u # us) \<Longrightarrow> fetcher r u w = (Inr data, w') \<Longrightarrow>
   decoder r data = Inl err \<Longrightarrow>
   Resolve_loop isSelfSigned r loop certs w =
     (Returns ([], Some (''error while fetching issuer certificate: '' @
                         ''decoding failure: '' @ err)),
      [FetchCall u (Inr data), DecodeCall data (Inl err), decodeWarning (last certs) err], w')"
  by (subst Resolve_loop.simps) (simp add: fic_decode_fails)

lemma loop_root:
  "\<not> loopLimit r \<le> loop + 1 \<Longrightarrow> certs \<noteq> [] \<Longrightarrow>
   IssuingCertificateURL (last certs) = Some (u # us) \<Longrightarrow> fetcher r u w = (Inr data, w') \<Longrightarrow>
   decoder r data = Inr newCert \<Longrightarrow> isSelfSigned newCert \<Longrightarrow>
   Resolve_loop isSelfSigned r loop certs w =
     (Returns (certs @ [newCert], None),
      [FetchCall u (Inr data), DecodeCall data (Inr newCert), appendDebug (last certs) newCert,
       rootDebug (last certs)], w')"
  by (subst Resolve_loop.simps) (simp add: fic_decodes)

lemma loop_continues:
  "\<not> loopLimit r \<le> loop + 1 \<Longrightarrow> certs \<noteq> [] \<Longrightarrow>
   IssuingCertificateURL (last certs) = Some (u # us) \<Longrightarrow> fetcher r u w = (Inr data, w1) \<Longrightarrow>
   decoder r data = Inr newCert \<Longrightarrow> \<not> isSelfSigned newCert \<Longrightarrow>
   Resolve_loop isSelfSigned r (loop + 1) (certs @ [newCert]) w1 = (res, evs, w') \<Longrightarrow>
   Resolve_loop isSelfSigned r loop certs w =
     (res,
      [FetchCall u (Inr data), DecodeCall data (Inr newCert), appendDebug (last certs) newCert]
        @ evs, w')"
  by (subst Resolve_loop.simps) (simp add: fic_decodes)

lemma Resolve_loop_cases
  [consumes 1, case_names limit empty no_url panics fetch_fails decode_fails root continues]:
  assumes run: "Resolve_loop isSelfSigned r loop certs w = (res, evs, w')"
  obtains
    (limit) "loopLimit r \<le> loop + 1" "res = Returns (certs, None)" "evs = [limitWarning]"
      "w' = w"
  | (empty) "\<not> loopLimit r \<le> loop + 1" "certs = []" "\<exists>msg. res = Panics msg" "evs = []"
      "w' = w"
  | (no_url) "\<not> loopLimit r \<le> loop + 1" "certs \<noteq> []"
      "IssuingCertificateURL (last certs) = None"
      "res = Returns (certs, None)" "evs = [noURLDebug (last certs)]" "w' = w"
  | (panics) "\<not> loopLimit r \<le> loop + 1" "certs \<noteq> []"
      "IssuingCertificateURL (last certs) = Some []"
      "\<exists>msg. res = Panics msg" "evs = []" "w' = w"
  | (fetch_fails) u us err where "\<not> loopLimit r \<le> loop + 1" "certs \<noteq> []"
      "IssuingCertificateURL (last certs) = Some (u # us)" "fetcher r u w = (Inl err, w')"
      "res = Returns ([], Some (''error while fetching issuer certificate: '' @
                                 ''remote fetch failure: '' @ err))"
      "evs = [FetchCall u (Inl err), fetchWarning (last certs) u err]"
  | (decode_fails) u us data err where "\<not> loopLimit r \<le> loop + 1" "certs \<noteq> []"
      "IssuingCertificateURL (last certs) = Some (u # us)" "fetcher r u w = (Inr data, w')"
      "decoder r data = Inl err"
      "res = Returns ([], Some (''error while fetching issuer certificate: '' @
                                 ''decoding failure: '' @ err))"
      "evs = [FetchCall u (Inr data), DecodeCall data (Inl err),
              decodeWarning (last certs) err]"
  | (root) u us data newCert where "\<not> loopLimit r \<le> loop + 1" "certs \<noteq> []"
      "IssuingCertificateURL (last certs) = Some (u # us)" "fetcher r u w = (Inr data, w')"
      "decoder r data = Inr newCert" "isSelfSigned newCert"
      "res = Returns (certs @ [newCert], None)"
      "evs = [FetchCall u (Inr data), DecodeCall data (Inr newCert),
              appendDebug (last certs) newCert, rootDebug (last certs)]"
  | (continues) u us data newCert w1 evs1 where "\<not> loopLimit r \<le> loop + 1" "certs \<noteq> []"
      "IssuingCertificateURL (last certs) = Some (u # us)" "fetcher r u w = (Inr data, w1)"
      "decoder r data = Inr newCert" "\<not> isSelfSigned newCert"
      "fetchIssuerCertificate r (last certs) w =
         (Returns (Inr newCert),
          [FetchCall u (Inr data), DecodeCall data (Inr newCert),
           appendDebug (last certs) newCert], w1)"
      "Resolve_loop isSelfSigned r (loop + 1) (certs @ [newCert]) w1 = (res, evs1, w')"
      "evs = [FetchCall u (Inr data), DecodeCall data (Inr newCert),
              appendDebug (last certs) newCert] @ evs1"
proof (cases "loopLimit r \<le> loop + 1")
  case True
  with run limit show ?thesis by (simp add: loop_limit)
next
  case nl: False
  show ?thesis
  proof (cases "certs = []")
    case True
    with run nl empty show ?thesis by (auto simp: loop_empty)
  next
    case ne: False
    show ?thesis
    proof (cases "IssuingCertificateURL (last certs)")
      case None
      with run nl ne no_url show ?thesis by (simp add: loop_no_url)
    next
      case (Some urls)
      show ?thesis
      proof (cases urls)
        case Nil
        with run nl ne Some panics show ?thesis by (auto simp: loop_panics)
      next
        case (Cons u us)
        obtain fr w1 where f: "fetcher r u w = (fr, w1)" by (cases "fetcher r u w")
        show ?thesis
        proof (cases fr)
          case (Inl err)
          with run nl ne Some Cons f fetch_fails [of u us err] show ?thesis
            by (simp add: loop_fetch_fails)
        next
          case (Inr data)
          show ?thesis
          proof (cases "decoder r data")
            case (Inl err)
            with run nl ne Some Cons f Inr decode_fails [of u us data err] show ?thesis
              by (simp add: loop_decode_fails)
          next
            case dec: (Inr newCert)
            show ?thesis
            proof (cases "isSelfSigned newCert")
              case True
              with run nl ne Some Cons f Inr dec root [of u us data newCert] show ?thesis
                by (simp add: loop_root)
            next
              case False
              obtain res1 evs1 w2 where
                rec: "Resolve_loop isSelfSigned r (loop + 1) (certs @ [newCert]) w1 = (res1, evs1, w2)"
                by (cases "Resolve_loop isSelfSigned r (loop + 1) (certs @ [newCert]) w1")
              have fic: "fetchIssuerCertificate r (last certs) w =
                 (Returns (Inr newCert),
                  [FetchCall u (Inr data), DecodeCall data (Inr newCert),
                   appendDebug (last certs) newCert], w1)"
                using Some Cons f Inr dec by (simp add: fic_decodes)
              have "Resolve_loop isSelfSigned r loop certs w =
                 (res1, [FetchCall u (Inr data), DecodeCall data (Inr newCert),
                   appendDebug (last certs) newCert] @ evs1, w2)"
                using nl ne Some Cons f Inr dec False rec by (simp add: loop_continues)
              with run have "res = res1" "w' = w2"
                "evs = [FetchCall u (Inr data), DecodeCall data (Inr newCert),
                   appendDebug (last certs) newCert] @ evs1" by simp_all
              with nl ne Some Cons f Inr dec False rec fic
                continues [where u=u and us=us and data=data and newCert=newCert and ?w1.0=w1 and ?evs1.0=evs1] show ?thesis by simp
            qed
          qed
        qed
      qed
    qed
  qed
qed

lemma Resolve_loop_induct [case_names step]:
  assumes "\<And>isSelfSigned r loop certs w.
     (\<And>c evs w1. \<not> loopLimit r \<le> loop + 1 \<Longrightarrow> certs \<noteq> [] \<Longrightarrow>
        fetchIssuerCertificate r (last certs) w = (Returns (Inr c), evs, w1) \<Longrightarrow>
        \<not> isSelfSigned c \<Longrightarrow> P isSelfSigned r (loop + 1) (certs @ [c]) w1) \<Longrightarrow>
     P isSelfSigned r loop certs w"
  shows "P isSelfSigned r loop certs w"
proof (induction isSelfSigned r loop certs w rule: Resolve_loop.induct)
  case (1 isSelfSigned r loop certs w)
  show ?case
  proof (rule assms)
    fix c evs w1
    assume a: "\<not> loopLimit r \<le> loop + 1" "certs \<noteq> []"
      "fetchIssuerCertificate r (last certs) w = (Returns (Inr c), evs, w1)"
      "\<not> isSelfSigned c"
    from a(3) obtain us where "IssuingCertificateURL (last certs) = Some us"
      by (auto simp: fetchIssuerCertificate_def split: option.splits)
    with a show "P isSelfSigned r (loop + 1) (certs @ [c]) w1"
      using "1.IH" by simp
  qed
qed


lemma Resolve_loop_fetched:
  "Resolve_loop isSelfSigned r loop certs w = (res, evs, w') \<Longrightarrow>
     int (length (fetched evs)) \<le> max 0 (loopLimit r - (loop + 1))"
proof (induction isSelfSigned r loop certs w arbitrary: res evs w' rule: Resolve_loop_induct)
  case (step isSelfSigned r loop certs w)
  from step.prems show ?case
  proof (cases rule: Resolve_loop_cases)
    case (continues u us data newCert w1 evs1)
    from step.IH [OF continues(1,2,7,6,8)] continues(1,9) show ?thesis by simp
  qed simp_all
qed

section \<open>Properties of the loop\<close>

lemma log_distinct [simp]:
  "limitWarning \<noteq> noURLDebug c" "limitWarning \<noteq> rootDebug c"
  "limitWarning \<noteq> fetchWarning c u e" "limitWarning \<noteq> decodeWarning c e"
  "limitWarning \<noteq> appendDebug c c'" "limitWarning \<noteq> FetchCall u x"
  "limitWarning \<noteq> DecodeCall d y"
  "rootDebug a \<noteq> noURLDebug c" "rootDebug a \<noteq> limitWarning"
  "rootDebug a \<noteq> fetchWarning c u e" "rootDebug a \<noteq> decodeWarning c e"
  "rootDebug a \<noteq> appendDebug c c'" "rootDebug a \<noteq> FetchCall u x"
  "rootDebug a \<noteq> DecodeCall d y"
  by (simp_all add: limitWarning_def noURLDebug_def rootDebug_def fetchWarning_def
      decodeWarning_def appendDebug_def fetchLogFields_def)

lemma call_distinct [simp]:
  "FetchCall u x \<noteq> limitWarning" "FetchCall u x \<noteq> noURLDebug c"
  "FetchCall u x \<noteq> rootDebug c" "FetchCall u x \<noteq> fetchWarning c u' e"
  "FetchCall u x \<noteq> decodeWarning c e" "FetchCall u x \<noteq> appendDebug c c'"
  "DecodeCall d y \<noteq> limitWarning" "DecodeCall d y \<noteq> noURLDebug c"
  "DecodeCall d y \<noteq> rootDebug c" "DecodeCall d y \<noteq> fetchWarning c u' e"
  "DecodeCall d y \<noteq> decodeWarning c e" "DecodeCall d y \<noteq> appendDebug c c'"
  by (simp_all add: limitWarning_def noURLDebug_def rootDebug_def fetchWarning_def
      decodeWarning_def appendDebug_def)

lemma Resolve_loop_appends:
  "Resolve_loop isSelfSigned r loop certs w = (Returns (chain, None), evs, w') \<Longrightarrow>
     chain = certs @ decoded evs"
proof (induction isSelfSigned r loop certs w arbitrary: evs w' rule: Resolve_loop_induct)
  case (step isSelfSigned r loop certs w)
  from step.prems show ?case
  proof (cases rule: Resolve_loop_cases)
    case (continues u us data newCert w1 evs1)
    from step.IH [OF continues(1,2,7,6,8)] continues(9) show ?thesis by simp
  qed simp_all
qed

lemma Resolve_loop_error_nil:
  "Resolve_loop isSelfSigned r loop certs w = (Returns (chain, Some e), evs, w') \<Longrightarrow> chain = []"
proof (induction isSelfSigned r loop certs w arbitrary: evs w' rule: Resolve_loop_induct)
  case (step isSelfSigned r loop certs w)
  from step.prems show ?case
  proof (cases rule: Resolve_loop_cases)
    case (continues u us data newCert w1 evs1)
    from step.IH [OF continues(1,2,7,6,8)] show ?thesis .
  qed simp_all
qed

lemma Resolve_loop_fetch_failure:
  "Resolve_loop isSelfSigned r loop certs w = (res, evs, w') \<Longrightarrow>
   FetchCall u (Inl cause) \<in> set evs \<Longrightarrow>
     res = Returns ([], Some (''error while fetching issuer certificate: '' @
                              ''remote fetch failure: '' @ cause)) \<and>
     (\<exists>us. IssuingCertificateURL (last (certs @ decoded evs)) = Some (u # us)) \<and>
     fetchWarning (last (certs @ decoded evs)) u cause \<in> set evs"
proof (induction isSelfSigned r loop certs w arbitrary: evs w' rule: Resolve_loop_induct)
  case (step isSelfSigned r loop certs w)
  from step.prems(1) show ?case
  proof (cases rule: Resolve_loop_cases)
    case (continues u' us data newCert w1 evs1)
    from step.prems(2) continues(9) have "FetchCall u (Inl cause) \<in> set evs1" by simp
    from step.IH [OF continues(1,2,7,6,8) this] continues(9) show ?thesis by simp
  qed (use step.prems(2) in auto)
qed

lemma Resolve_loop_decode_failure:
  "Resolve_loop isSelfSigned r loop certs w = (res, evs, w') \<Longrightarrow>
   DecodeCall d (Inl cause) \<in> set evs \<Longrightarrow>
     res = Returns ([], Some (''error while fetching issuer certificate: '' @
                              ''decoding failure: '' @ cause))"
proof (induction isSelfSigned r loop certs w arbitrary: evs w' rule: Resolve_loop_induct)
  case (step isSelfSigned r loop certs w)
  from step.prems(1) show ?case
  proof (cases rule: Resolve_loop_cases)
    case (continues u' us data newCert w1 evs1)
    from step.prems(2) continues(9) have "DecodeCall d (Inl cause) \<in> set evs1" by simp
    from step.IH [OF continues(1,2,7,6,8) this] show ?thesis .
  qed (use step.prems(2) in auto)
qed

lemma Resolve_loop_limit_reached:
  "Resolve_loop isSelfSigned r loop certs w = (res, evs, w') \<Longrightarrow> limitWarning \<in> set evs \<Longrightarrow>
     res = Returns (certs @ decoded evs, None) \<and> length (decoded evs) = length (fetched evs)"
proof (induction isSelfSigned r loop certs w arbitrary: evs w' rule: Resolve_loop_induct)
  case (step isSelfSigned r loop certs w)
  from step.prems(1) show ?case
  proof (cases rule: Resolve_loop_cases)
    case (continues u' us data newCert w1 evs1)
    from step.prems(2) continues(9) have "limitWarning \<in> set evs1" by simp
    from step.IH [OF continues(1,2,7,6,8) this] continues(9) show ?thesis by simp
  qed (use step.prems(2) in auto)
qed

lemma Resolve_loop_root_reached:
  "Resolve_loop isSelfSigned r loop certs w = (res, evs, w') \<Longrightarrow> rootDebug c \<in> set evs \<Longrightarrow>
     res = Returns (certs @ decoded evs, None) \<and> decoded evs \<noteq> [] \<and>
     isSelfSigned (last (decoded evs))"
proof (induction isSelfSigned r loop certs w arbitrary: evs w' rule: Resolve_loop_induct)
  case (step isSelfSigned r loop certs w)
  from step.prems(1) show ?case
  proof (cases rule: Resolve_loop_cases)
    case (continues u' us data newCert w1 evs1)
    from step.prems(2) continues(9) have "rootDebug c \<in> set evs1" by simp
    from step.IH [OF continues(1,2,7,6,8) this] continues(9) show ?thesis by simp
  qed (use step.prems(2) in auto)
qed

lemma Resolve_loop_first_url:
  "Resolve_loop isSelfSigned r loop certs w = (res, evs, w') \<Longrightarrow>
     list_all2 (\<lambda>u c. \<exists>us. IssuingCertificateURL c = Some (u # us))
       (fetched evs) (take (length (fetched evs)) (last certs # decoded evs))"
proof (induction isSelfSigned r loop certs w arbitrary: evs w' rule: Resolve_loop_induct)
  case (step isSelfSigned r loop certs w)
  from step.prems(1) show ?case
  proof (cases rule: Resolve_loop_cases)
    case (continues u' us data newCert w1 evs1)
    from step.IH [OF continues(1,2,7,6,8)] continues(3,9) show ?thesis by simp
  qed simp_all
qed


lemma Resolve_loop_failed_fetch_last:
  "Resolve_loop isSelfSigned r loop certs w = (res, evs, w') \<Longrightarrow>
   FetchCall u (Inl cause) \<in> set evs \<Longrightarrow>
     \<exists>pre cert. evs = pre @ [FetchCall u (Inl cause), fetchWarning cert u cause]"
proof (induction isSelfSigned r loop certs w arbitrary: evs w' rule: Resolve_loop_induct)
  case (step isSelfSigned r loop certs w)
  from step.prems(1) show ?case
  proof (cases rule: Resolve_loop_cases)
    case (continues u' us data newCert w1 evs1)
    from step.prems(2) continues(9) have "FetchCall u (Inl cause) \<in> set evs1" by simp
    from step.IH [OF continues(1,2,7,6,8) this] obtain pre cert where
      "evs1 = pre @ [FetchCall u (Inl cause), fetchWarning cert u cause]" by blast
    with continues(9) have
      "evs = ([FetchCall u' (Inr data), DecodeCall data (Inr newCert),
               appendDebug (last certs) newCert] @ pre) @
             [FetchCall u (Inl cause), fetchWarning cert u cause]" by simp
    then show ?thesis by blast
  qed (use step.prems(2) in auto)
qed

lemma replay_log [simp]:
  "replay r (limitWarning # es) w = replay r es w"
  "replay r (noURLDebug c # es) w = replay r es w"
  "replay r (rootDebug c # es) w = replay r es w"
  "replay r (fetchWarning c u e # es) w = replay r es w"
  "replay r (decodeWarning c e # es) w = replay r es w"
  "replay r (appendDebug c c' # es) w = replay r es w"
  by (simp_all add: limitWarning_def noURLDebug_def rootDebug_def fetchWarning_def
      decodeWarning_def appendDebug_def)

lemma Resolve_loop_replay:
  "Resolve_loop isSelfSigned r loop certs w = (res, evs, w') \<Longrightarrow> replay r evs w = Some w'"
proof (induction isSelfSigned r loop certs w arbitrary: evs w' rule: Resolve_loop_induct)
  case (step isSelfSigned r loop certs w)
  from step.prems(1) show ?case
  proof (cases rule: Resolve_loop_cases)
    case (continues u' us data newCert w1 evs1)
    from step.IH [OF continues(1,2,7,6,8)] continues(4,9) show ?thesis by simp
  qed simp_all
qed

lemma fic_requests_first_url:
  "IssuingCertificateURL cert = Some (u # us) \<Longrightarrow>
     \<exists>res evs. fetchIssuerCertificate r cert w =
        (res, FetchCall u (fst (fetcher r u w)) # evs, snd (fetcher r u w)) \<and>
        fetched evs = []"
  by (cases "fetcher r u w")
     (auto simp: fetchIssuerCertificate_def split: sum.splits)

lemma Resolve_loop_never_indexes_empty:
  "certs \<noteq> [] \<Longrightarrow> Resolve_loop isSelfSigned r loop certs w = (res, evs, w') \<Longrightarrow>
     res \<noteq> Panics ''index out of range [-1]''"
proof (induction isSelfSigned r loop certs w arbitrary: evs w' rule: Resolve_loop_induct)
  case (step isSelfSigned r loop certs w)
  from step.prems(2) show ?case
  proof (cases rule: Resolve_loop_cases)
    case (continues u' us data newCert w1 evs1)
    from step.IH [OF continues(1,2,7,6) _ continues(8)] show ?thesis by simp
  next
    case panics
    have "res = Panics ''index out of range [0] with length 0''"
      using step.prems(2) panics(1,2,3) by (simp add: loop_panics)
    then show ?thesis by simp
  qed (use step.prems(1) in auto)
qed

subsection \<open>The example runs\<close>

lemma example_certs [simp]:
  "IssuingCertificateURL certX =
     Some [''http://ca.example/Y.crt'', ''http://mirror.example/Y.crt'']"
  "IssuingCertificateURL certY = None"
  "IssuingCertificateURL certZ = Some [''http://ca.example/Z2.crt'']"
  "IsRoot exampleVerify certY" "\<not> IsRoot exampleVerify certZ"
  by (simp_all add: certX_def certY_def certZ_def IsRoot_def exampleVerify_def)

text \<open>Scenario A of the specification: the issuer of \<open>certX\<close> is served and is a root.\<close>

lemma run_scenario_A:
  "Resolve (IsRoot exampleVerify) (newURLResolver servingClient exampleDecode) [certX] 0 =
     (Returns ([certX, certY], None),
      [FetchCall ''http://ca.example/Y.crt'' (Inr [48, 89]), DecodeCall [48, 89] (Inr certY),
       appendDebug certX certY, rootDebug certX], 1)"
  by (simp add: Resolve_def newURLResolver_def defaultURLResolverLoopLimit_def
      Resolve_loop.simps fetchIssuerCertificate_def Fetch_def newHTTPFetcher_def servingClient_def
      exampleDecode_def)

text \<open>Scenario B: an issuer chain that never ends, under a loop limit of 3.\<close>

lemma run_scenario_B:
  "Resolve (IsRoot exampleVerify) (newURLResolver servingClient exampleDecode\<lparr>loopLimit := 3\<rparr>)
     [certZ] 0 =
     (Returns ([certZ, certZ, certZ], None),
      [FetchCall ''http://ca.example/Z2.crt'' (Inr [48, 90]), DecodeCall [48, 90] (Inr certZ),
       appendDebug certZ certZ,
       FetchCall ''http://ca.example/Z2.crt'' (Inr [48, 90]), DecodeCall [48, 90] (Inr certZ),
       appendDebug certZ certZ, limitWarning], 2)"
  by (simp add: Resolve_def newURLResolver_def Resolve_loop.simps fetchIssuerCertificate_def
      Fetch_def newHTTPFetcher_def servingClient_def exampleDecode_def)

text \<open>Every connection is refused.\<close>

lemma run_refused:
  "Resolve (IsRoot exampleVerify) (newURLResolver refusingClient exampleDecode) [certX] 0 =
     (Returns ([], Some ''error while fetching issuer certificate: remote fetch failure: connection refused''),
      [FetchCall ''http://ca.example/Y.crt'' (Inl ''connection refused''),
       fetchWarning certX ''http://ca.example/Y.crt'' ''connection refused''], 1)"
  by (simp add: Resolve_def newURLResolver_def defaultURLResolverLoopLimit_def
      Resolve_loop.simps fetchIssuerCertificate_def Fetch_def newHTTPFetcher_def refusingClient_def)

lemma run_timeout_X:
  "Resolve (IsRoot exampleVerify) timeoutResolver [certX] 0 =
     (Returns ([], Some ''error while fetching issuer certificate: remote fetch failure: i/o timeout''),
      [FetchCall ''http://ca.example/Y.crt'' (Inl ''i/o timeout''),
       fetchWarning certX ''http://ca.example/Y.crt'' ''i/o timeout''], 1)"
  by (simp add: Resolve_def timeoutResolver_def defaultURLResolverLoopLimit_def
      Resolve_loop.simps fetchIssuerCertificate_def)

lemma run_timeout_Z:
  "Resolve (IsRoot exampleVerify) timeoutResolver [certZ] 0 =
     (Returns ([], Some ''error while fetching issuer certificate: remote fetch failure: i/o timeout''),
      [FetchCall ''http://ca.example/Z2.crt'' (Inl ''i/o timeout''),
       fetchWarning certZ ''http://ca.example/Z2.crt'' ''i/o timeout''], 1)"
  by (simp add: Resolve_def timeoutResolver_def defaultURLResolverLoopLimit_def
      Resolve_loop.simps fetchIssuerCertificate_def)

text \<open>Scenario C: status 500, once with a body that is no certificate, once with a body
  that is one.\<close>

lemma run_status_500_page:
  "Resolve (IsRoot exampleVerify) (newURLResolver (failingClient [60, 104]) exampleDecode) [certX] 0 =
     (Returns ([], Some ''error while fetching issuer certificate: decoding failure: asn1: syntax error''),
      [FetchCall ''http://ca.example/Y.crt'' (Inr [60, 104]),
       DecodeCall [60, 104] (Inl ''asn1: syntax error''),
       decodeWarning certX ''asn1: syntax error''], 1)"
  by (simp add: Resolve_def newURLResolver_def defaultURLResolverLoopLimit_def
      Resolve_loop.simps fetchIssuerCertificate_def Fetch_def newHTTPFetcher_def failingClient_def
      exampleDecode_def)

lemma run_status_500_certificate:
  "Resolve (IsRoot exampleVerify) (newURLResolver (failingClient [48, 89]) exampleDecode) [certX] 0 =
     (Returns ([certX, certY], None),
      [FetchCall ''http://ca.example/Y.crt'' (Inr [48, 89]), DecodeCall [48, 89] (Inr certY),
       appendDebug certX certY, rootDebug certX], 1)"
  by (simp add: Resolve_def newURLResolver_def defaultURLResolverLoopLimit_def
      Resolve_loop.simps fetchIssuerCertificate_def Fetch_def newHTTPFetcher_def failingClient_def
      exampleDecode_def)

text \<open>The first issuer URL of \<open>certX\<close> is refused; the mirror, which would serve its
  issuer, is never requested.\<close>

lemma run_recording:
  "Resolve (IsRoot exampleVerify) recordingResolver [certX] [] =
     (Returns ([], Some ''error while fetching issuer certificate: remote fetch failure: connection refused''),
      [FetchCall ''http://ca.example/Y.crt'' (Inl ''connection refused''),
       fetchWarning certX ''http://ca.example/Y.crt'' ''connection refused''],
      [''http://ca.example/Y.crt''])"
  by (simp add: Resolve_def recordingResolver_def defaultURLResolverLoopLimit_def
      Resolve_loop.simps fetchIssuerCertificate_def)

lemma run_leaf_without_url:
  "Resolve (IsRoot exampleVerify) (newURLResolver servingClient exampleDecode) [certY] 0 =
     (Returns ([certY], None), [noURLDebug certY], 0)"
  by (simp add: Resolve_def newURLResolver_def defaultURLResolverLoopLimit_def
      Resolve_loop.simps)

section \<open>The claims\<close>

subsection \<open>Failures abort the call\<close>

text \<open>C1: when a fetch or a decode of an issuer certificate fails during \<open>Resolve\<close>, the
  call returns a non-nil error and the nil chain. The error is the text
  \<open>error while fetching issuer certificate: remote fetch failure: \<close> (for a decode:
  \<open>... decoding failure: \<close>) followed by the text of the cause, which is how
  \<open>fmt.Errorf\<close> with \<open>%v\<close> carries a cause. No error comes with a non-empty chain.\<close>

theorem Resolve_failure_aborts:
  assumes "Resolve isSelfSigned r certs w = (res, evs, w')"
  shows "(FetchCall u (Inl cause) \<in> set evs \<longrightarrow>
            res = Returns ([], Some (''error while fetching issuer certificate: '' @
                                     ''remote fetch failure: '' @ cause))) \<and>
         (DecodeCall d (Inl cause) \<in> set evs \<longrightarrow>
            res = Returns ([], Some (''error while fetching issuer certificate: '' @
                                     ''decoding failure: '' @ cause))) \<and>
         (\<forall>chain e. res = Returns (chain, Some e) \<longrightarrow> chain = [])"
proof (cases "length certs < 1")
  case True
  with assms show ?thesis by (auto simp: Resolve_def)
next
  case False
  with assms have run: "Resolve_loop isSelfSigned r 0 certs w = (res, evs, w')"
    by (simp add: Resolve_def)
  show ?thesis
    using Resolve_loop_fetch_failure [OF run] Resolve_loop_decode_failure [OF run]
      Resolve_loop_error_nil [of isSelfSigned r 0 certs w _ _ evs w'] run
    by blast
qed

theorem Resolve_failure_aborts_witness:
  "FetchCall ''http://ca.example/Y.crt'' (Inl ''connection refused'') \<in>
     set (fst (snd (Resolve (IsRoot exampleVerify) (newURLResolver refusingClient exampleDecode)
                      [certX] 0))) \<and>
   fst (Resolve (IsRoot exampleVerify) (newURLResolver refusingClient exampleDecode) [certX] 0) =
     Returns ([], Some ''error while fetching issuer certificate: remote fetch failure: connection refused'') \<and>
   DecodeCall [60, 104] (Inl ''asn1: syntax error'') \<in>
     set (fst (snd (Resolve (IsRoot exampleVerify) (newURLResolver (failingClient [60, 104]) exampleDecode)
                      [certX] 0))) \<and>
   fst (Resolve (IsRoot exampleVerify) (newURLResolver (failingClient [60, 104]) exampleDecode)
          [certX] 0) =
     Returns ([], Some ''error while fetching issuer certificate: decoding failure: asn1: syntax error'')"
  using Resolve_failure_aborts [OF run_refused,
          of "''http://ca.example/Y.crt''" "''connection refused''" "[]"]
        Resolve_failure_aborts [OF run_status_500_page,
          of "[]" "''asn1: syntax error''" "[60, 104]"]
  by (simp add: run_refused run_status_500_page)

subsection \<open>What the fetcher reports\<close>

text \<open>C2, as the code has it: \<open>Fetch\<close> reports the error of the request and the error of
  reading the body, and nothing else. The status of a response is never read: a response
  whose body can be read is returned as data, whatever its status. So when the issuer URL
  of a leaf answers with status 500 and a body that does not decode, \<open>Resolve\<close> returns
  the nil chain and a decoding failure.\<close>

theorem Fetch_reports_transport_errors_only:
  "(Get (client f) url w = (Inl err, w') \<longrightarrow> Fetch f url w = (Inl err, w')) \<and>
   (Get (client f) url w = (Inr resp, w') \<longrightarrow> Fetch f url w = (Body resp, w')) \<and>
   (fetcher r = Fetch f \<and> 1 < loopLimit r \<and>
    IssuingCertificateURL leaf = Some (url # urls) \<and>
    Get (client f) url w = (Inr resp, w') \<and> Body resp = Inr page \<and>
    decoder r page = Inl cause \<longrightarrow>
      Resolve isSelfSigned r [leaf] w =
        (Returns ([], Some (''error while fetching issuer certificate: '' @
                            ''decoding failure: '' @ cause)),
         [FetchCall url (Inr page), DecodeCall page (Inl cause), decodeWarning leaf cause],
         w'))"
proof (intro conjI impI)
  assume "Get (client f) url w = (Inl err, w')"
  then show "Fetch f url w = (Inl err, w')" by (simp add: Fetch_def)
next
  assume "Get (client f) url w = (Inr resp, w')"
  then show "Fetch f url w = (Body resp, w')"
    by (cases "Body resp") (simp_all add: Fetch_def)
next
  assume a: "fetcher r = Fetch f \<and> 1 < loopLimit r \<and>
    IssuingCertificateURL leaf = Some (url # urls) \<and>
    Get (client f) url w = (Inr resp, w') \<and> Body resp = Inr page \<and>
    decoder r page = Inl cause"
  then have "fetcher r url w = (Inr page, w')" by (simp add: Fetch_def)
  with a show "Resolve isSelfSigned r [leaf] w =
        (Returns ([], Some (''error while fetching issuer certificate: '' @
                            ''decoding failure: '' @ cause)),
         [FetchCall url (Inr page), DecodeCall page (Inl cause), decodeWarning leaf cause],
         w')"
    using loop_decode_fails [of r 0 "[leaf]" url urls w page w' cause isSelfSigned]
    by (simp add: Resolve_def)
qed

theorem Fetch_reports_transport_errors_only_witness:
  "Get (client (newHTTPFetcher refusingClient)) ''http://ca.example/Y.crt'' 0 =
     (Inl ''connection refused'', 1) \<and>
   Fetch (newHTTPFetcher refusingClient) ''http://ca.example/Y.crt'' 0 =
     (Inl ''connection refused'', 1) \<and>
   Get (client (newHTTPFetcher (failingClient [60, 104]))) ''http://ca.example/Y.crt'' 0 =
     (Inr \<lparr>StatusCode = 500, Body = Inr [60, 104]\<rparr>, 1) \<and>
   Fetch (newHTTPFetcher (failingClient [60, 104])) ''http://ca.example/Y.crt'' 0 =
     (Inr [60, 104], 1) \<and>
   Resolve (IsRoot exampleVerify) (newURLResolver (failingClient [60, 104]) exampleDecode) [certX] 0 =
     (Returns ([], Some ''error while fetching issuer certificate: decoding failure: asn1: syntax error''),
      [FetchCall ''http://ca.example/Y.crt'' (Inr [60, 104]),
       DecodeCall [60, 104] (Inl ''asn1: syntax error''),
       decodeWarning certX ''asn1: syntax error''], 1)"
  using Fetch_reports_transport_errors_only
          [of "newHTTPFetcher refusingClient" "''http://ca.example/Y.crt''" 0
              "''connection refused''" 1]
        Fetch_reports_transport_errors_only
          [of "newHTTPFetcher (failingClient [60, 104])" "''http://ca.example/Y.crt''" 0 _ 1
              "\<lparr>StatusCode = 500, Body = Inr [60, 104]\<rparr>"
              "newURLResolver (failingClient [60, 104]) exampleDecode" certX
              "[''http://mirror.example/Y.crt'']" "[60, 104]" "''asn1: syntax error''"
              "IsRoot exampleVerify"]
  by (simp add: newHTTPFetcher_def refusingClient_def failingClient_def newURLResolver_def
      defaultURLResolverLoopLimit_def exampleDecode_def)

text \<open>C2, as the specification has it, fails: the issuer URL of \<open>certX\<close> answers with
  status 500, \<open>Fetch\<close> returns the body and no error, and \<open>Resolve\<close> returns the chain
  extended by the certificate decoded from that body, with no error.\<close>

theorem status_500_is_no_fetch_error:
  "fst (Get (failingClient [48, 89]) ''http://ca.example/Y.crt'' 0) =
     Inr \<lparr>StatusCode = 500, Body = Inr [48, 89]\<rparr> \<and>
   fst (Fetch (newHTTPFetcher (failingClient [48, 89])) ''http://ca.example/Y.crt'' 0) =
     Inr [48, 89] \<and>
   fetcher (newURLResolver (failingClient [48, 89]) exampleDecode) =
     Fetch (newHTTPFetcher (failingClient [48, 89])) \<and>
   fst (Resolve (IsRoot exampleVerify) (newURLResolver (failingClient [48, 89]) exampleDecode)
          [certX] 0) =
     Returns ([certX, certY], None)"
proof (intro conjI)
  show "fst (Get (failingClient [48, 89]) ''http://ca.example/Y.crt'' 0) =
     Inr \<lparr>StatusCode = 500, Body = Inr [48, 89]\<rparr>"
    by (simp add: failingClient_def)
  show "fst (Fetch (newHTTPFetcher (failingClient [48, 89])) ''http://ca.example/Y.crt'' 0) =
     Inr [48, 89]"
    by (simp add: failingClient_def Fetch_def newHTTPFetcher_def)
  show "fetcher (newURLResolver (failingClient [48, 89]) exampleDecode) =
     Fetch (newHTTPFetcher (failingClient [48, 89]))"
    by (simp add: newURLResolver_def)
  show "fst (Resolve (IsRoot exampleVerify) (newURLResolver (failingClient [48, 89]) exampleDecode)
          [certX] 0) = Returns ([certX, certY], None)"
    by (simp add: run_status_500_certificate)
qed

subsection \<open>The loop limit\<close>

text \<open>C3: with loop limit \<open>N\<close>, \<open>Resolve\<close> makes at most \<open>N - 1\<close> fetches (none when
  \<open>N \<le> 1\<close>: the first check of the limit leaves the loop). It always comes to an end:
  \<open>Resolve_loop\<close> is a total function, its recursion descends along \<open>loopLimit - loop\<close>. When the limit is reached (the warning of
  the limit is logged), \<open>Resolve\<close> returns without error the input chain followed by all
  the certificates decoded so far, one for each fetch.\<close>

theorem Resolve_loop_limit:
  assumes "Resolve isSelfSigned r certs w = (res, evs, w')"
  shows "int (length (fetched evs)) \<le> max 0 (loopLimit r - 1) \<and>
         (limitWarning \<in> set evs \<longrightarrow>
            res = Returns (certs @ decoded evs, None) \<and>
            length (decoded evs) = length (fetched evs))"
proof (cases "length certs < 1")
  case True
  with assms show ?thesis by (auto simp: Resolve_def)
next
  case False
  with assms have run: "Resolve_loop isSelfSigned r 0 certs w = (res, evs, w')"
    by (simp add: Resolve_def)
  show ?thesis
    using Resolve_loop_fetched [OF run] Resolve_loop_limit_reached [OF run] by simp
qed

text \<open>Scenario B: the limit is 3, the issuer chain of \<open>certZ\<close> never ends; two fetches are
  made and the chain grows by two certificates, with no error.\<close>

theorem Resolve_loop_limit_witness:
  "limitWarning \<in> set (fst (snd (Resolve (IsRoot exampleVerify)
       (newURLResolver servingClient exampleDecode\<lparr>loopLimit := 3\<rparr>) [certZ] 0))) \<and>
   fst (Resolve (IsRoot exampleVerify)
       (newURLResolver servingClient exampleDecode\<lparr>loopLimit := 3\<rparr>) [certZ] 0) =
     Returns ([certZ, certZ, certZ], None) \<and>
   length (fetched (fst (snd (Resolve (IsRoot exampleVerify)
       (newURLResolver servingClient exampleDecode\<lparr>loopLimit := 3\<rparr>) [certZ] 0)))) = 2"
  using Resolve_loop_limit [OF run_scenario_B]
  by (simp add: run_scenario_B)

subsection \<open>The chain only grows\<close>

text \<open>C4: a chain that \<open>Resolve\<close> returns (a return without error; with an error the
  chain is nil) is the input chain followed by the certificates decoded during the call,
  in the order they were decoded. So the input is a prefix of it, every input element keeps
  its position, and element 0 is the input leaf.\<close>

theorem Resolve_only_appends:
  assumes "Resolve isSelfSigned r certs w = (Returns (chain, None), evs, w')"
  shows "chain = certs @ decoded evs \<and> prefix certs chain \<and>
         (\<forall>i < length certs. chain ! i = certs ! i) \<and>
         (certs \<noteq> [] \<longrightarrow> chain ! 0 = certs ! 0)"
proof -
  have eq: "chain = certs @ decoded evs"
  proof (cases "length certs < 1")
    case True
    with assms show ?thesis by (auto simp: Resolve_def)
  next
    case False
    with assms have "Resolve_loop isSelfSigned r 0 certs w = (Returns (chain, None), evs, w')"
      by (simp add: Resolve_def)
    then show ?thesis by (rule Resolve_loop_appends)
  qed
  then show ?thesis by (simp add: nth_append)
qed

theorem Resolve_only_appends_witness:
  "Resolve (IsRoot exampleVerify) (newURLResolver servingClient exampleDecode) [certX] 0 =
     (Returns ([certX, certY], None),
      [FetchCall ''http://ca.example/Y.crt'' (Inr [48, 89]), DecodeCall [48, 89] (Inr certY),
       appendDebug certX certY, rootDebug certX], 1) \<and>
   [certX, certY] = [certX] @ [certY] \<and> prefix [certX] [certX, certY] \<and>
   [certX, certY] ! 0 = [certX] ! 0"
  using Resolve_only_appends [OF run_scenario_A]
  by (simp add: run_scenario_A)

subsection \<open>The error of a failed fetch\<close>

text \<open>C5, as the code has it: for every fetch that fails during \<open>Resolve\<close>, the error
  returned is exactly the text \<open>error while fetching issuer certificate: remote fetch
  failure: \<close> followed by the text of the cause. \<open>Resolve\<close> adds nothing else to it, so
  the error names the issuer URL or the certificate only as far as the text of the cause
  does. The URL that was fetched (the first issuer URL of the last certificate of the
  chain) and that certificate are recorded in the warning logged before the return.\<close>

theorem Resolve_fetch_error:
  assumes "Resolve isSelfSigned r certs w = (res, evs, w')"
    and "FetchCall u (Inl cause) \<in> set evs"
  shows "res = Returns ([], Some (''error while fetching issuer certificate: '' @
                                  ''remote fetch failure: '' @ cause)) \<and>
         (\<exists>us. IssuingCertificateURL (last (certs @ decoded evs)) = Some (u # us)) \<and>
         fetchWarning (last (certs @ decoded evs)) u cause \<in> set evs"
proof (cases "length certs < 1")
  case True
  with assms show ?thesis by (auto simp: Resolve_def)
next
  case False
  with assms(1) have "Resolve_loop isSelfSigned r 0 certs w = (res, evs, w')"
    by (simp add: Resolve_def)
  from Resolve_loop_fetch_failure [OF this assms(2)] show ?thesis .
qed

theorem Resolve_fetch_error_witness:
  "FetchCall ''http://ca.example/Y.crt'' (Inl ''connection refused'') \<in>
     set (fst (snd (Resolve (IsRoot exampleVerify) (newURLResolver refusingClient exampleDecode)
                      [certX] 0))) \<and>
   fst (Resolve (IsRoot exampleVerify) (newURLResolver refusingClient exampleDecode) [certX] 0) =
     Returns ([], Some ''error while fetching issuer certificate: remote fetch failure: connection refused'') \<and>
   fetchWarning certX ''http://ca.example/Y.crt'' ''connection refused'' \<in>
     set (fst (snd (Resolve (IsRoot exampleVerify) (newURLResolver refusingClient exampleDecode)
                      [certX] 0)))"
  using Resolve_fetch_error [OF run_refused,
          of "''http://ca.example/Y.crt''" "''connection refused''"]
  by (simp add: run_refused)

text \<open>C5, as the specification has it, fails: a fetcher times out, with a cause that
  names no URL, for two certificates with different subjects and different issuer URLs.
  \<open>Resolve\<close> returns one and the same error for both; neither the issuer URL nor the
  subject occurs in its text.\<close>

theorem fetch_error_names_neither_url_nor_certificate:
  "fst (Resolve (IsRoot exampleVerify) timeoutResolver [certX] 0) =
     Returns ([], Some ''error while fetching issuer certificate: remote fetch failure: i/o timeout'') \<and>
   fst (Resolve (IsRoot exampleVerify) timeoutResolver [certZ] 0) =
     fst (Resolve (IsRoot exampleVerify) timeoutResolver [certX] 0) \<and>
   Subject certX \<noteq> Subject certZ \<and>
   IssuingCertificateURL certX \<noteq> IssuingCertificateURL certZ \<and>
   \<not> sublist ''http://ca.example/Y.crt''
       ''error while fetching issuer certificate: remote fetch failure: i/o timeout'' \<and>
   \<not> sublist ''CN=X''
       ''error while fetching issuer certificate: remote fetch failure: i/o timeout''"
proof (intro conjI)
  show "\<not> sublist ''http://ca.example/Y.crt''
       ''error while fetching issuer certificate: remote fetch failure: i/o timeout''"
    by code_simp
  show "\<not> sublist ''CN=X''
       ''error while fetching issuer certificate: remote fetch failure: i/o timeout''"
    by code_simp
  show "Subject certX \<noteq> Subject certZ" by (simp add: certX_def certZ_def)
  show "IssuingCertificateURL certX \<noteq> IssuingCertificateURL certZ" by simp
qed (simp_all add: run_timeout_X run_timeout_Z)

subsection \<open>Stopping at a root\<close>

text \<open>C6, with the root detector of the specification as the root check: when \<open>Resolve\<close>
  stops because the certificate it has just appended is detected as a root (the branch that
  logs so), it returns without error a chain whose last element is that certificate; its
  issuer equals its subject and its signature verifies against its own public key.\<close>

theorem Resolve_stops_at_root:
  assumes "Resolve (IsRoot verify) r certs w = (res, evs, w')"
    and "rootDebug c \<in> set evs"
  shows "\<exists>chain. res = Returns (chain, None) \<and> chain \<noteq> [] \<and>
           decoded evs \<noteq> [] \<and> last chain = last (decoded evs) \<and>
           Issuer (last chain) = Subject (last chain) \<and>
           verify (PublicKey (last chain)) (RawTBSCertificate (last chain))
             (Signature (last chain))"
proof (cases "length certs < 1")
  case True
  with assms show ?thesis by (auto simp: Resolve_def)
next
  case False
  with assms(1) have "Resolve_loop (IsRoot verify) r 0 certs w = (res, evs, w')"
    by (simp add: Resolve_def)
  from Resolve_loop_root_reached [OF this assms(2)] show ?thesis
    by (simp add: IsRoot_def)
qed

theorem Resolve_stops_at_root_witness:
  "rootDebug certX \<in>
     set (fst (snd (Resolve (IsRoot exampleVerify) (newURLResolver servingClient exampleDecode)
                      [certX] 0))) \<and>
   fst (Resolve (IsRoot exampleVerify) (newURLResolver servingClient exampleDecode) [certX] 0) =
     Returns ([certX, certY], None) \<and>
   Issuer certY = Subject certY \<and>
   exampleVerify (PublicKey certY) (RawTBSCertificate certY) (Signature certY)"
  using Resolve_stops_at_root [OF run_scenario_A, of certX]
  by (simp add: run_scenario_A)

subsection \<open>A leaf without issuer URL\<close>

text \<open>For a chain of one certificate whose issuer URL slice is nil, \<open>Resolve\<close> returns that
  chain unchanged and no error; nothing is fetched and the network is left as it was.\<close>

lemma Resolve_leaf_with_nil_url_slice:
  assumes "IssuingCertificateURL leaf = None"
  shows "\<exists>evs. Resolve isSelfSigned r [leaf] w = (Returns ([leaf], None), evs, w) \<and>
           fetched evs = [] \<and> decoded evs = []"
proof (cases "loopLimit r \<le> 0 + 1")
  case True
  then show ?thesis by (simp add: Resolve_def loop_limit)
next
  case False
  with assms show ?thesis by (simp add: Resolve_def loop_no_url)
qed

text \<open>C7 does not hold of the code for every leaf that carries no issuer URL. The loop
  leaves with the entry \<open>Certificate doesn't provide parent URL\<close> only when the slice is
  nil. A leaf whose slice is not nil and has no element carries no issuer URL either; on
  the chain of that one leaf, a resolver made by \<open>newURLResolver\<close> does not return the chain
  unchanged: it panics at the access to element 0.\<close>

theorem Resolve_leaf_with_empty_url_slice_panics:
  "Resolve isSelfSigned (newURLResolver c decodeCertificate)
     [leaf\<lparr>IssuingCertificateURL := Some []\<rparr>] w =
     (Panics ''index out of range [0] with length 0'', [], w)"
  by (simp add: Resolve_def newURLResolver_def defaultURLResolverLoopLimit_def loop_panics)

subsection \<open>An issuer URL slice that is present and empty\<close>

text \<open>C8 does not hold of the code: the guard of the loop compares the slice with nil, so
  a certificate whose issuer URL slice is not nil and has no element passes it, and the
  access to element 0 in \<open>fetchIssuerCertificate\<close> panics.\<close>

theorem Resolve_empty_url_slice_panics:
  "Resolve (IsRoot exampleVerify) (newURLResolver servingClient exampleDecode)
     [certY\<lparr>IssuingCertificateURL := Some []\<rparr>] 0 =
     (Panics ''index out of range [0] with length 0'', [], 0)"
  by (simp add: Resolve_def newURLResolver_def defaultURLResolverLoopLimit_def loop_panics)

subsection \<open>Only the first issuer URL\<close>

text \<open>C9: each call of \<open>fetchIssuerCertificate\<close>, one per iteration that fetches, makes one
  request to the fetcher, for the first URL of its certificate: the fetch it records is
  the fetcher's answer for that URL, and the network it leaves is the network after that
  one request. Over a whole call of \<open>Resolve\<close>, the \<open>i\<close>-th URL fetched is the first issuer
  URL of the certificate that was last in the chain then: the last input certificate, then
  each decoded certificate in turn. The network after the call is the network after
  exactly these requests, made in this order and answered as recorded. A fetch that fails
  is the last fetch of the call: only the warning follows it, no alternate URL is tried.\<close>

theorem Resolve_fetches_first_url_only:
  assumes "Resolve isSelfSigned r certs w = (res, evs, w')"
  shows "(IssuingCertificateURL cert = Some (u0 # us0) \<longrightarrow>
            (\<exists>res0 evs0. fetchIssuerCertificate r cert w0 =
               (res0, FetchCall u0 (fst (fetcher r u0 w0)) # evs0, snd (fetcher r u0 w0)) \<and>
               fetched evs0 = [])) \<and>
         fetched (fst (snd (fetchIssuerCertificate r cert w0))) =
           (case IssuingCertificateURL cert of Some (u # us) \<Rightarrow> [u] | _ \<Rightarrow> []) \<and>
         list_all2 (\<lambda>u c. \<exists>us. IssuingCertificateURL c = Some (u # us))
           (fetched evs) (take (length (fetched evs)) (last certs # decoded evs)) \<and>
         replay r evs w = Some w' \<and>
         (FetchCall u (Inl cause) \<in> set evs \<longrightarrow>
            (\<exists>pre c. evs = pre @ [FetchCall u (Inl cause), fetchWarning c u cause]))"
proof (intro conjI)
  show "IssuingCertificateURL cert = Some (u0 # us0) \<longrightarrow>
            (\<exists>res0 evs0. fetchIssuerCertificate r cert w0 =
               (res0, FetchCall u0 (fst (fetcher r u0 w0)) # evs0, snd (fetcher r u0 w0)) \<and>
               fetched evs0 = [])"
    using fic_requests_first_url [of cert u0 us0 r w0] by blast
next
  show "fetched (fst (snd (fetchIssuerCertificate r cert w0))) =
           (case IssuingCertificateURL cert of Some (u # us) \<Rightarrow> [u] | _ \<Rightarrow> [])"
    by (simp add: fetchIssuerCertificate_def split: option.splits list.splits prod.splits
        sum.splits)
next
  show "list_all2 (\<lambda>u c. \<exists>us. IssuingCertificateURL c = Some (u # us))
           (fetched evs) (take (length (fetched evs)) (last certs # decoded evs))"
  proof (cases "length certs < 1")
    case True
    with assms show ?thesis by (auto simp: Resolve_def)
  next
    case False
    with assms have "Resolve_loop isSelfSigned r 0 certs w = (res, evs, w')"
      by (simp add: Resolve_def)
    then show ?thesis by (rule Resolve_loop_first_url)
  qed
next
  show "replay r evs w = Some w'"
  proof (cases "length certs < 1")
    case True
    with assms show ?thesis by (auto simp: Resolve_def)
  next
    case False
    with assms have "Resolve_loop isSelfSigned r 0 certs w = (res, evs, w')"
      by (simp add: Resolve_def)
    then show ?thesis by (rule Resolve_loop_replay)
  qed
next
  show "FetchCall u (Inl cause) \<in> set evs \<longrightarrow>
          (\<exists>pre c. evs = pre @ [FetchCall u (Inl cause), fetchWarning c u cause])"
  proof (cases "length certs < 1")
    case True
    with assms show ?thesis by (auto simp: Resolve_def)
  next
    case False
    with assms have run: "Resolve_loop isSelfSigned r 0 certs w = (res, evs, w')"
      by (simp add: Resolve_def)
    show ?thesis
    proof
      assume "FetchCall u (Inl cause) \<in> set evs"
      from Resolve_loop_failed_fetch_last [OF run this]
      show "\<exists>pre c. evs = pre @ [FetchCall u (Inl cause), fetchWarning c u cause]" .
    qed
  qed
qed

text \<open>\<open>certX\<close> names two issuer URLs. The network keeps the list of the URLs requested;
  the first URL is refused and the mirror would serve the issuer. After the call the list
  holds the first URL alone, and the call has failed.\<close>

theorem Resolve_fetches_first_url_only_witness:
  "IssuingCertificateURL certX =
     Some [''http://ca.example/Y.crt'', ''http://mirror.example/Y.crt''] \<and>
   fetcher recordingResolver ''http://mirror.example/Y.crt'' [] =
     (Inr [48, 89], [''http://mirror.example/Y.crt'']) \<and>
   fetcher recordingResolver ''http://ca.example/Y.crt'' [] =
     (Inl ''connection refused'', [''http://ca.example/Y.crt'']) \<and>
   Resolve (IsRoot exampleVerify) recordingResolver [certX] [] =
     (Returns ([], Some ''error while fetching issuer certificate: remote fetch failure: connection refused''),
      [FetchCall ''http://ca.example/Y.crt'' (Inl ''connection refused''),
       fetchWarning certX ''http://ca.example/Y.crt'' ''connection refused''],
      [''http://ca.example/Y.crt'']) \<and>
   (\<exists>res0 evs0. fetchIssuerCertificate recordingResolver certX [] =
      (res0, FetchCall ''http://ca.example/Y.crt'' (Inl ''connection refused'') # evs0,
       [''http://ca.example/Y.crt'']) \<and> fetched evs0 = []) \<and>
   replay recordingResolver
     [FetchCall ''http://ca.example/Y.crt'' (Inl ''connection refused''),
      fetchWarning certX ''http://ca.example/Y.crt'' ''connection refused''] [] =
     Some [''http://ca.example/Y.crt''] \<and>
   (\<exists>pre c. [FetchCall ''http://ca.example/Y.crt'' (Inl ''connection refused''),
             fetchWarning certX ''http://ca.example/Y.crt'' ''connection refused''] =
      pre @ [FetchCall ''http://ca.example/Y.crt'' (Inl ''connection refused''),
             fetchWarning c ''http://ca.example/Y.crt'' ''connection refused''])"
proof -
  have f1: "fetcher recordingResolver ''http://mirror.example/Y.crt'' [] =
     (Inr [48, 89], [''http://mirror.example/Y.crt''])"
    by (simp add: recordingResolver_def)
  have f2: "fetcher recordingResolver ''http://ca.example/Y.crt'' [] =
     (Inl ''connection refused'', [''http://ca.example/Y.crt''])"
    by (simp add: recordingResolver_def)
  note inst = Resolve_fetches_first_url_only [OF run_recording,
          where cert = certX and ?u0.0 = "''http://ca.example/Y.crt''"
            and ?us0.0 = "[''http://mirror.example/Y.crt'']" and ?w0.0 = "[]"
            and u = "''http://ca.example/Y.crt''" and cause = "''connection refused''"]
  from inst f1 f2 show ?thesis by (simp add: run_recording)
qed

subsection \<open>The empty chain\<close>

text \<open>C10: for the empty input chain \<open>Resolve\<close> returns an empty result and no error, and
  makes no call at all: no fetch, no decode, no log entry; the network is left as it was.\<close>

theorem Resolve_empty_chain:
  "Resolve isSelfSigned r [] w = (Returns ([], None), [], w)"
  by (simp add: Resolve_def)

end
